theory Spec2Isabelle
  imports Complex_Main
begin

section \<open>Tokens and bullets of the shooter (game\_token.py)\<close>

text \<open>
  The module defines collectible tokens (score, ammo, timed power-ups) and the bullets
  fired by the player. Its methods mutate Python objects that are shared by reference
  (a token is in the world's token list and may become the player's power-up), so the
  model keeps an explicit store of token objects addressed by references and passes the
  state through every method. A method that raises returns \<open>Inl\<close> with the error.

  Numbers: tick counts, scores and ammunition are Python ints (\<^typ>\<open>int\<close>). Positions,
  the entries of the direction table and the bullet speed are Python floats, as the source
  annotates them: IEEE binary64 values, every operation rounded to the nearest double.
  (A Python int passed in their place has the same value and the same arithmetic as long
  as it stays below \<open>2^53\<close> in magnitude.) The coordinates of a \<open>pygame.Rect\<close> are
  32-bit C ints.

  Field names carry the name of their class as a prefix (\<open>bullet_x\<close> for \<open>Bullet.x\<close>)
  because several classes of the source have fields \<open>x\<close>, \<open>y\<close> and \<open>rect\<close>.
\<close>

subsection \<open>Python floats\<close>

datatype py_error = ValueError | TypeError | KeyError | AttributeError | OverflowError

text \<open>
  A float is a finite double, given by its value, an infinity or a NaN. The two zeros
  are one value: addition, subtraction, multiplication, comparison and conversion to int
  do not tell them apart.
\<close>

datatype pyfloat = Finite rat | PosInf | NegInf | NaN

text \<open>\<open>bit_length\<close> of a positive int, as Python's \<open>int.bit_length\<close>.\<close>

function bit_length :: "int \<Rightarrow> int" where
  "bit_length a = (if 0 < a then bit_length (a div 2) + 1 else 0)"
  by pat_completeness auto
termination
  by (relation "measure nat") auto

declare bit_length.simps [simp del]

text \<open>
  \<open>binade q\<close> is the exponent \<open>e\<close> with \<open>2^e \<le> |q| < 2^(e+1)\<close>, for \<open>q\<close> other than zero.
  The difference of the bit lengths of numerator and denominator is \<open>e\<close> or \<open>e + 1\<close>.
\<close>

definition binade :: "rat \<Rightarrow> int" where
  "binade q =
     (let (a, b) = quotient_of \<bar>q\<bar>;
          k = bit_length a - bit_length b
      in if 2 powi k \<le> \<bar>q\<bar> then k else k - 1)"

definition round_half_even :: "rat \<Rightarrow> int" where
  "round_half_even q =
     (let n = \<lfloor>q\<rfloor>; r = q - of_int n
      in if r < 1 / 2 then n else if 1 / 2 < r then n + 1 else if even n then n else n + 1)"

text \<open>
  Rounding of an exact result to binary64, to nearest with ties to even: 53 significant
  bits, the spacing of the subnormals (\<open>2^-1074\<close>) below \<open>2^-1022\<close>, an infinity when
  the rounded magnitude reaches \<open>2^1024\<close>.
\<close>

definition round_double :: "rat \<Rightarrow> pyfloat" where
  "round_double q =
     (if q = 0 then Finite 0
      else let ulp = 2 powi (max (binade q) (- 1022) - 52);
               r = of_int (round_half_even (q / ulp)) * ulp
           in if 2 powi 1024 \<le> \<bar>r\<bar> then (if 0 < q then PosInf else NegInf) else Finite r)"

text \<open>The sign of a float that is not a NaN, as \<open>-1\<close>, \<open>0\<close> or \<open>1\<close>.\<close>

definition float_sign :: "pyfloat \<Rightarrow> int" where
  "float_sign f =
     (case f of Finite q \<Rightarrow> (if 0 < q then 1 else if q < 0 then - 1 else 0)
      | PosInf \<Rightarrow> 1 | NegInf \<Rightarrow> - 1 | NaN \<Rightarrow> 0)"

definition float_neg :: "pyfloat \<Rightarrow> pyfloat" where
  "float_neg f =
     (case f of Finite q \<Rightarrow> Finite (- q) | PosInf \<Rightarrow> NegInf | NegInf \<Rightarrow> PosInf | NaN \<Rightarrow> NaN)"

text \<open>\<open>a + b\<close>, \<open>a - b\<close> and \<open>a * b\<close> on floats. None of them raises.\<close>

definition float_add :: "pyfloat \<Rightarrow> pyfloat \<Rightarrow> pyfloat" where
  "float_add a b =
     (case (a, b) of
        (Finite p, Finite q) \<Rightarrow> round_double (p + q)
      | (NaN, _) \<Rightarrow> NaN
      | (_, NaN) \<Rightarrow> NaN
      | (Finite p, _) \<Rightarrow> b
      | (_, Finite q) \<Rightarrow> a
      | _ \<Rightarrow> (if a = b then a else NaN))"

definition float_sub :: "pyfloat \<Rightarrow> pyfloat \<Rightarrow> pyfloat" where
  "float_sub a b = float_add a (float_neg b)"

definition float_mul :: "pyfloat \<Rightarrow> pyfloat \<Rightarrow> pyfloat" where
  "float_mul a b =
     (case (a, b) of
        (Finite p, Finite q) \<Rightarrow> round_double (p * q)
      | (NaN, _) \<Rightarrow> NaN
      | (_, NaN) \<Rightarrow> NaN
      | _ \<Rightarrow> (if float_sign a * float_sign b = 0 then NaN
              else if 0 < float_sign a * float_sign b then PosInf else NegInf))"

text \<open>
  \<open>int(f)\<close> truncates towards zero; it raises \<open>OverflowError\<close> for an infinity and
  \<open>ValueError\<close> for a NaN.
\<close>

definition trunc :: "rat \<Rightarrow> int" where
  "trunc q = (if 0 \<le> q then \<lfloor>q\<rfloor> else \<lceil>q\<rceil>)"

definition py_int :: "pyfloat \<Rightarrow> py_error + int" where
  "py_int f =
     (case f of Finite q \<Rightarrow> Inr (trunc q)
      | PosInf \<Rightarrow> Inl OverflowError | NegInf \<Rightarrow> Inl OverflowError
      | NaN \<Rightarrow> Inl ValueError)"

text \<open>A rational is exact when it is a double: rounding leaves it as it is.\<close>

definition exact :: "rat \<Rightarrow> bool" where
  "exact q = (round_double q = Finite q)"

subsection \<open>Python lists and pygame rectangles\<close>

text \<open>
  \<open>xs.remove(v)\<close> deletes the first element equal to \<open>v\<close> and raises
  \<open>ValueError\<close> when there is none. The classes of the module define no \<open>__eq__\<close>,
  so equality of objects is identity: equality of references in the model.
\<close>

definition list_remove :: "'a \<Rightarrow> 'a list \<Rightarrow> py_error + 'a list" where
  "list_remove v xs = (if v \<in> set xs then Inr (remove1 v xs) else Inl ValueError)"

text \<open>
  \<open>pygame.Rect\<close> stores position and size as 32-bit C ints. A Python int given to it
  is read as a C long (64 bits) and cut to its low 32 bits; an int that does not fit a C
  long is refused with \<open>TypeError\<close>. A float coordinate given to \<open>collidepoint\<close> is cast
  to a C int, which truncates it; the model cuts the truncated value to 32 bits, and
  takes the least C int for an infinity or a NaN, where C leaves the cast undefined.
\<close>

definition wrap32 :: "int \<Rightarrow> int" where
  "wrap32 v = (v + 2 ^ 31) mod 2 ^ 32 - 2 ^ 31"

definition c_int :: "int \<Rightarrow> py_error + int" where
  "c_int v = (if - (2 ^ 63) \<le> v \<and> v < 2 ^ 63 then Inr (wrap32 v) else Inl TypeError)"

definition c_int_of_float :: "pyfloat \<Rightarrow> int" where
  "c_int_of_float f = (case f of Finite q \<Rightarrow> wrap32 (trunc q) | _ \<Rightarrow> - (2 ^ 31))"

record Rect =
  rect_x :: int
  rect_y :: int
  rect_w :: int
  rect_h :: int

definition Rect_init :: "int \<Rightarrow> int \<Rightarrow> int \<Rightarrow> int \<Rightarrow> py_error + Rect" where
  "Rect_init l t w h =
     (case (c_int l, c_int t, c_int w, c_int h) of
        (Inr cl, Inr ct, Inr cw, Inr ch) \<Rightarrow>
          Inr \<lparr>rect_x = cl, rect_y = ct, rect_w = cw, rect_h = ch\<rparr>
      | _ \<Rightarrow> Inl TypeError)"

text \<open>
  \<open>collidepoint\<close> is inclusive on the left and top edges and exclusive on the right and
  bottom edges. \<open>center\<close> adds half the size, rounded down.
\<close>

definition collidepoint :: "Rect \<Rightarrow> int \<times> int \<Rightarrow> bool" where
  "collidepoint r p =
     (rect_x r \<le> fst p \<and> fst p < rect_x r + rect_w r \<and>
      rect_y r \<le> snd p \<and> snd p < rect_y r + rect_h r)"

definition collidepoint_float :: "Rect \<Rightarrow> pyfloat \<times> pyfloat \<Rightarrow> bool" where
  "collidepoint_float r p = collidepoint r (c_int_of_float (fst p), c_int_of_float (snd p))"

definition center :: "Rect \<Rightarrow> int \<times> int" where
  "center r = (rect_x r + rect_w r div 2, rect_y r + rect_h r div 2)"

subsection \<open>Token objects\<close>

text \<open>
  The concrete classes below \<open>Token\<close>: \<open>ScoreToken\<close>, \<open>AmmoToken\<close> and the four
  subclasses of the abstract \<open>PowerUpToken\<close>. The abstract classes are never
  instantiated. The sprite of a token matters only through the size of its bounding
  rectangle, which \<open>Token_init\<close> takes as an argument. The constructor assigns
  \<open>rect.x = int(self.x)\<close> and then \<open>rect.y = int(self.y)\<close>; each conversion and each
  assignment can raise.
\<close>

datatype power_up_class =
  PUSDoubleShootingSpeed | PUDoubleMovementSpeed | PUDoubleScore | PUPiercingAmmo

datatype token_class = ScoreToken | AmmoToken | PowerUpToken power_up_class

record token =
  cls :: token_class
  token_x :: pyfloat
  token_y :: pyfloat
  token_rect :: Rect
  start_time :: "int option"

definition Token_init ::
  "token_class \<Rightarrow> pyfloat \<times> pyfloat \<Rightarrow> int \<times> int \<Rightarrow> py_error + token" where
  "Token_init c location image_size =
     (case py_int (fst location) of Inl e \<Rightarrow> Inl e | Inr i \<Rightarrow>
     (case c_int i of Inl e \<Rightarrow> Inl e | Inr l \<Rightarrow>
     (case py_int (snd location) of Inl e \<Rightarrow> Inl e | Inr j \<Rightarrow>
     (case c_int j of Inl e \<Rightarrow> Inl e | Inr t \<Rightarrow>
        Inr \<lparr>cls = c, token_x = fst location, token_y = snd location,
             token_rect = \<lparr>rect_x = l, rect_y = t,
                           rect_w = fst image_size, rect_h = snd image_size\<rparr>,
             start_time = None\<rparr>))))"

fun str_of :: "power_up_class \<Rightarrow> string" where
  "str_of PUSDoubleShootingSpeed = ''DoubleShootingSpeed''"
| "str_of PUDoubleMovementSpeed = ''DoubleMovementSpeed''"
| "str_of PUDoubleScore = ''DoubleScore''"
| "str_of PUPiercingAmmo = ''PiercingAmmo''"

subsection \<open>The player and the world state\<close>

type_synonym ref = nat

text \<open>
  Modelled from the spec: the class \<open>UserPlayer\<close> (module \<open>character\<close>) is not among the
  sources. The spec gives the player a rectangle with a centre point, a score, an
  ammunition count and a nullable power-up reference.
\<close>

record UserPlayer =
  player_rect :: Rect
  score :: int
  ammo :: int
  power_up :: "ref option"

text \<open>
  Modelled from the spec: \<open>UserPlayer.add_score\<close> is not among the sources; by the spec
  the score increases by the amount given.
\<close>

definition add_score :: "int \<Rightarrow> UserPlayer \<Rightarrow> UserPlayer" where
  "add_score n p = p\<lparr>score := score p + n\<rparr>"

text \<open>
  Modelled from the spec: \<open>UserPlayer.add_ammo\<close> is not among the sources; by the spec
  the ammunition increases by the amount given.
\<close>

definition add_ammo :: "int \<Rightarrow> UserPlayer \<Rightarrow> UserPlayer" where
  "add_ammo n p = p\<lparr>ammo := ammo p + n\<rparr>"

text \<open>
  Modelled from the spec: \<open>UserPlayer.set_power_up\<close> is not among the sources; by the
  spec it is the setter of the power-up reference.
\<close>

definition set_power_up :: "ref \<Rightarrow> UserPlayer \<Rightarrow> UserPlayer" where
  "set_power_up t p = p\<lparr>power_up := Some t\<rparr>"

text \<open>
  The state that \<open>collect\<close> works on: the store of token objects, the list \<open>tokens\<close>
  of references passed to it, the player, and the sequence of mutations and calls made
  so far (appended to by every statement that has an effect, so that the order of the
  effects of one call can be read off).
\<close>

datatype effect =
  AddScore int | AddAmmo int | SetStartTime ref int | TokensRemove ref | SetPowerUp ref

record world =
  heap :: "ref \<Rightarrow> token"
  tokens :: "ref list"
  player :: UserPlayer
  trace :: "effect list"

text \<open>The statements of the \<open>collect\<close> methods.\<close>

definition call_add_score :: "int \<Rightarrow> world \<Rightarrow> world" where
  "call_add_score n w = w\<lparr>player := add_score n (player w), trace := trace w @ [AddScore n]\<rparr>"

definition call_add_ammo :: "int \<Rightarrow> world \<Rightarrow> world" where
  "call_add_ammo n w = w\<lparr>player := add_ammo n (player w), trace := trace w @ [AddAmmo n]\<rparr>"

definition tokens_remove :: "ref \<Rightarrow> world \<Rightarrow> py_error \<times> world + world" where
  "tokens_remove self w =
     (case list_remove self (tokens w) of
        Inl e \<Rightarrow> Inl (e, w)
      | Inr ts \<Rightarrow> Inr (w\<lparr>tokens := ts, trace := trace w @ [TokensRemove self]\<rparr>))"

definition assign_start_time :: "ref \<Rightarrow> int \<Rightarrow> world \<Rightarrow> world" where
  "assign_start_time self t w =
     w\<lparr>heap := (heap w)(self := (heap w self)\<lparr>start_time := Some t\<rparr>),
       trace := trace w @ [SetStartTime self t]\<rparr>"

definition call_set_power_up :: "ref \<Rightarrow> world \<Rightarrow> world" where
  "call_set_power_up self w =
     w\<lparr>player := set_power_up self (player w), trace := trace w @ [SetPowerUp self]\<rparr>"

subsection \<open>collect\<close>

text \<open>
  A raised error is returned together with the state at the moment of the raise: what a
  method has mutated before it raises stays mutated.
\<close>

definition ScoreToken_collect :: "ref \<Rightarrow> world \<Rightarrow> py_error \<times> world + world" where
  "ScoreToken_collect self w =
     (if collidepoint (token_rect (heap w self)) (center (player_rect (player w)))
      then tokens_remove self (call_add_score 100 w)
      else Inr w)"

definition AmmoToken_collect :: "ref \<Rightarrow> world \<Rightarrow> py_error \<times> world + world" where
  "AmmoToken_collect self w =
     (if collidepoint (token_rect (heap w self)) (center (player_rect (player w)))
      then tokens_remove self (call_add_ammo 5 w)
      else Inr w)"

text \<open>\<open>now\<close> is the value that \<open>pygame.time.get_ticks()\<close> returns during the call.\<close>

definition PowerUpToken_collect :: "int \<Rightarrow> ref \<Rightarrow> world \<Rightarrow> py_error \<times> world + world" where
  "PowerUpToken_collect now self w =
     (if power_up (player w) \<noteq> None then Inr w
      else if collidepoint (token_rect (heap w self)) (center (player_rect (player w)))
      then (case tokens_remove self (assign_start_time self now w) of
              Inl e \<Rightarrow> Inl e
            | Inr w' \<Rightarrow> Inr (call_set_power_up self w'))
      else Inr w)"

text \<open>\<open>T.collect(player, tokens)\<close>: dispatch on the class of the object \<open>T\<close>.\<close>

definition collect :: "int \<Rightarrow> ref \<Rightarrow> world \<Rightarrow> py_error \<times> world + world" where
  "collect now self w =
     (case cls (heap w self) of
        ScoreToken \<Rightarrow> ScoreToken_collect self w
      | AmmoToken \<Rightarrow> AmmoToken_collect self w
      | PowerUpToken k \<Rightarrow> PowerUpToken_collect now self w)"

subsection \<open>check\_for\_completion\<close>

text \<open>
  The method exists on power-up tokens only. Subtracting \<open>None\<close> from an int raises
  \<open>TypeError\<close>. \<open>now\<close> is the value of \<open>pygame.time.get_ticks()\<close>.
\<close>

definition check_for_completion :: "int \<Rightarrow> token \<Rightarrow> py_error + bool" where
  "check_for_completion now self =
     (case cls self of
        PowerUpToken k \<Rightarrow>
          (case start_time self of
             None \<Rightarrow> Inl TypeError
           | Some t0 \<Rightarrow> (if now - t0 \<ge> 30000 then Inr True else Inr False))
      | _ \<Rightarrow> Inl AttributeError)"

subsection \<open>Bullets\<close>

text \<open>
  \<open>MOVEMENT_COEFFICIENTS\<close> (a dict from direction names to pairs of numbers) and
  \<open>BULLET_SPEED\<close> are imported from the module \<open>constants\<close>, which is not among the
  sources. They are parameters of the model.
\<close>

record constants =
  MOVEMENT_COEFFICIENTS :: "string \<rightharpoonup> pyfloat \<times> pyfloat"
  BULLET_SPEED :: pyfloat

record Bullet =
  bullet_x :: pyfloat
  bullet_y :: pyfloat
  bullet_rect :: Rect
  direction :: string

text \<open>
  The constructor evaluates \<open>int(x - 2)\<close>, then \<open>int(y - 2)\<close>, then builds the
  rectangle. When one of them raises, no bullet exists.
\<close>

definition Bullet_init :: "pyfloat \<Rightarrow> pyfloat \<Rightarrow> string \<Rightarrow> py_error + Bullet" where
  "Bullet_init x y d =
     (case py_int (float_sub x (Finite 2)) of Inl e \<Rightarrow> Inl e | Inr l \<Rightarrow>
     (case py_int (float_sub y (Finite 2)) of Inl e \<Rightarrow> Inl e | Inr t \<Rightarrow>
     (case Rect_init l t 4 4 of Inl e \<Rightarrow> Inl e | Inr r \<Rightarrow>
        Inr \<lparr>bullet_x = x, bullet_y = y, bullet_rect = r, direction = d\<rparr>)))"

text \<open>
  \<open>update\<close> is two augmented assignments. Each looks the direction up in the dict, which
  raises \<open>KeyError\<close> for a name that is not a key, multiplies the coefficient by the
  speed and adds the product to the coordinate, rounding after each operation.
\<close>

definition update :: "constants \<Rightarrow> Bullet \<Rightarrow> py_error \<times> Bullet + Bullet" where
  "update C self =
     (case MOVEMENT_COEFFICIENTS C (direction self) of
        None \<Rightarrow> Inl (KeyError, self)
      | Some v \<Rightarrow>
          (let self1 = self\<lparr>bullet_x :=
                              float_add (bullet_x self) (float_mul (fst v) (BULLET_SPEED C))\<rparr> in
           (case MOVEMENT_COEFFICIENTS C (direction self1) of
              None \<Rightarrow> Inl (KeyError, self1)
            | Some v' \<Rightarrow>
                Inr (self1\<lparr>bullet_y :=
                              float_add (bullet_y self1)
                                (float_mul (snd v') (BULLET_SPEED C))\<rparr>))))"

text \<open>\<open>place\<close> calls \<open>update\<close> and then \<open>draw\<close>; drawing changes nothing in the state.\<close>

definition place :: "constants \<Rightarrow> Bullet \<Rightarrow> py_error \<times> Bullet + Bullet" where
  "place C self = update C self"

text \<open>
  Modelled from the spec: the class \<open>Enemy\<close> (module \<open>character\<close>) is not among the
  sources. The spec gives an enemy a bounding rectangle.
\<close>

record Enemy =
  enemy_rect :: Rect

text \<open>
  \<open>check_for_enemies\<close>: the loop runs over the snapshot \<open>enemies.copy()\<close> (the third
  argument of \<open>check_loop\<close>) and removes from the list itself (the fourth). The enemy
  objects are read through the store \<open>E\<close>.
\<close>

fun check_loop ::
  "(ref \<Rightarrow> Enemy) \<Rightarrow> Bullet \<Rightarrow> ref list \<Rightarrow> ref list \<Rightarrow> int
     \<Rightarrow> py_error \<times> Bullet \<times> ref list + Bullet \<times> ref list \<times> int" where
  "check_loop E self [] enemies kills = Inr (self, enemies, kills)"
| "check_loop E self (enemy # rest) enemies kills =
     (if collidepoint_float (enemy_rect (E enemy)) (bullet_x self, bullet_y self)
      then (case list_remove enemy enemies of
              Inl e \<Rightarrow> Inl (e, self, enemies)
            | Inr enemies' \<Rightarrow> check_loop E self rest enemies' (kills + 1))
      else check_loop E self rest enemies kills)"

definition check_for_enemies ::
  "(ref \<Rightarrow> Enemy) \<Rightarrow> Bullet \<Rightarrow> ref list
     \<Rightarrow> py_error \<times> Bullet \<times> ref list + Bullet \<times> ref list \<times> int" where
  "check_for_enemies E self enemies = check_loop E self enemies enemies 0"

text \<open>
  The life of a bullet after its construction is a sequence of method calls on it, each
  working on the bullet as the previous call left it. \<open>lifetime\<close> runs such a sequence
  and stops at the first call that raises.
\<close>

datatype bullet_call = Update | Place | CheckForEnemies "ref \<Rightarrow> Enemy" "ref list"

fun call :: "constants \<Rightarrow> bullet_call \<Rightarrow> Bullet \<Rightarrow> py_error \<times> Bullet + Bullet" where
  "call C Update self = update C self"
| "call C Place self = place C self"
| "call C (CheckForEnemies E enemies) self =
     (case check_for_enemies E self enemies of
        Inl (e, self', enemies') \<Rightarrow> Inl (e, self')
      | Inr (self', enemies', kills) \<Rightarrow> Inr self')"

fun lifetime :: "constants \<Rightarrow> bullet_call list \<Rightarrow> Bullet \<Rightarrow> py_error \<times> Bullet + Bullet" where
  "lifetime C [] self = Inr self"
| "lifetime C (c # cs) self =
     (case call C c self of
        Inl e \<Rightarrow> Inl e
      | Inr self' \<Rightarrow> lifetime C cs self')"

text \<open>
  Modelled from the spec: the values of the module \<open>constants\<close> are not among the
  sources. The spec describes a table from compass directions to unit displacements and
  a fixed bullet speed; this is one such configuration, used for concrete runs.
\<close>

definition four_way :: constants where
  "four_way =
     \<lparr>MOVEMENT_COEFFICIENTS =
        map_of [(''up'', (Finite 0, Finite (- 1))), (''down'', (Finite 0, Finite 1)),
                (''left'', (Finite (- 1), Finite 0)), (''right'', (Finite 1, Finite 0))],
      BULLET_SPEED = Finite 10\<rparr>"

subsection \<open>Notions used in the statements\<close>

text \<open>The test in the body of the loop of \<open>check_for_enemies\<close>.\<close>

definition hits :: "(ref \<Rightarrow> Enemy) \<Rightarrow> Bullet \<Rightarrow> ref \<Rightarrow> bool" where
  "hits E self enemy =
     collidepoint_float (enemy_rect (E enemy)) (bullet_x self, bullet_y self)"

text \<open>The bullet as a call leaves it, whether the call returned or raised.\<close>

definition bullet_of :: "py_error \<times> Bullet + Bullet \<Rightarrow> Bullet" where
  "bullet_of r = (case r of Inl (e, b) \<Rightarrow> b | Inr b \<Rightarrow> b)"

text \<open>
  The rectangle of a bullet is the 4x4 rectangle whose top-left corner is
  \<open>(int(x - 2), int(y - 2))\<close> for its current position \<open>(x, y)\<close>.
\<close>

definition rect_centred :: "Bullet \<Rightarrow> bool" where
  "rect_centred b =
     (case (py_int (float_sub (bullet_x b) (Finite 2)),
            py_int (float_sub (bullet_y b) (Finite 2))) of
        (Inr i, Inr j) \<Rightarrow>
          bullet_rect b = \<lparr>rect_x = i, rect_y = j, rect_w = 4, rect_h = 4\<rparr>
      | _ \<Rightarrow> False)"

subsection \<open>A concrete world\<close>

text \<open>
  Four tokens with 16x16 sprites, as the constructor returns them: an ammo token, a score
  token and a power-up at \<open>(10, 10)\<close>, and a score token at \<open>(200, 200)\<close>. The player's
  rectangle has its centre at \<open>(10, 10)\<close>. Two enemies around \<open>(5, 5)\<close>, the others away
  from it.
\<close>

definition demo_token :: "token_class \<Rightarrow> int \<Rightarrow> token" where
  "demo_token c i =
     \<lparr>cls = c, token_x = Finite (of_int i), token_y = Finite (of_int i),
      token_rect = \<lparr>rect_x = i, rect_y = i, rect_w = 16, rect_h = 16\<rparr>,
      start_time = None\<rparr>"

definition demo_heap :: "ref \<Rightarrow> token" where
  "demo_heap =
     (\<lambda>r. demo_token ScoreToken 200)
       (1 := demo_token AmmoToken 10,
        2 := demo_token ScoreToken 10,
        3 := demo_token (PowerUpToken PUDoubleScore) 10)"

definition demo_player :: UserPlayer where
  "demo_player =
     \<lparr>player_rect = \<lparr>rect_x = 0, rect_y = 0, rect_w = 20, rect_h = 20\<rparr>,
      score = 0, ammo = 0, power_up = None\<rparr>"

definition demo_world :: world where
  "demo_world = \<lparr>heap = demo_heap, tokens = [1, 2, 3, 4], player = demo_player, trace = []\<rparr>"

definition demo_enemies :: "ref \<Rightarrow> Enemy" where
  "demo_enemies =
     (\<lambda>r. \<lparr>enemy_rect = \<lparr>rect_x = 40, rect_y = 40, rect_w = 8, rect_h = 8\<rparr>\<rparr>)
       (1 := \<lparr>enemy_rect = \<lparr>rect_x = 2, rect_y = 2, rect_w = 8, rect_h = 8\<rparr>\<rparr>,
        3 := \<lparr>enemy_rect = \<lparr>rect_x = 5, rect_y = 0, rect_w = 8, rect_h = 8\<rparr>\<rparr>)"

text \<open>
  The bullet that the constructor returns for a position with small integer coordinates,
  the one it returns for \<open>Bullet(0.01, 10, "right")\<close> (the float written \<open>0.01\<close> is
  the double nearest to 1/100), and the one it returns for \<open>Bullet(3000000000, 10, "up")\<close>.
\<close>

definition int_bullet :: "int \<Rightarrow> int \<Rightarrow> string \<Rightarrow> Bullet" where
  "int_bullet i j d =
     \<lparr>bullet_x = Finite (of_int i), bullet_y = Finite (of_int j),
      bullet_rect = \<lparr>rect_x = i - 2, rect_y = j - 2, rect_w = 4, rect_h = 4\<rparr>,
      direction = d\<rparr>"

definition centi_bullet :: Bullet where
  "centi_bullet =
     \<lparr>bullet_x = Finite (5764607523034235 / 576460752303423488), bullet_y = Finite 10,
      bullet_rect = \<lparr>rect_x = - 1, rect_y = 8, rect_w = 4, rect_h = 4\<rparr>,
      direction = ''right''\<rparr>"

definition far_bullet :: Bullet where
  "far_bullet =
     \<lparr>bullet_x = Finite 3000000000, bullet_y = Finite 10,
      bullet_rect = \<lparr>rect_x = - 1294967298, rect_y = 8, rect_w = 4, rect_h = 4\<rparr>,
      direction = ''up''\<rparr>"

section \<open>Properties\<close>

subsection \<open>Auxiliary facts about floats\<close>

text \<open>
  The bit length brackets a positive int between two powers of two, so \<open>binade\<close> is the
  exponent it is meant to be, and it is the only such exponent.
\<close>

lemma bit_length_bounds:
  "0 < a \<Longrightarrow> 1 \<le> bit_length a \<and> 2 powi (bit_length a - 1) \<le> (of_int a :: rat) \<and>
     (of_int a :: rat) < 2 powi (bit_length a)"
proof (induction a rule: bit_length.induct)
  case (1 a)
  show ?case
  proof (cases "a = 1")
    case True
    have "bit_length 1 = 1"
      by (simp add: bit_length.simps [of 1] bit_length.simps [of 0])
    with True show ?thesis by simp
  next
    case False
    with "1.prems" have half: "0 < a div 2" by simp
    from "1.IH" [OF "1.prems" half]
    have IH: "1 \<le> bit_length (a div 2)"
      "2 powi (bit_length (a div 2) - 1) \<le> (of_int (a div 2) :: rat)"
      "(of_int (a div 2) :: rat) < 2 powi (bit_length (a div 2))"
      by simp_all
    have len: "bit_length a = bit_length (a div 2) + 1"
      using "1.prems" by (simp add: bit_length.simps [of a])
    have lo: "2 * (a div 2) \<le> a" and hi: "a < 2 * (a div 2 + 1)"
      by simp_all
    have p1: "(2::rat) powi (bit_length (a div 2)) = 2 * 2 powi (bit_length (a div 2) - 1)"
      using power_int_minus_mult [of "2::rat" "bit_length (a div 2)"] by simp
    have p2: "(2::rat) powi (bit_length (a div 2) + 1) = 2 * 2 powi (bit_length (a div 2))"
      by (simp add: power_int_add)
    have "(2::rat) powi (bit_length (a div 2)) \<le> 2 * of_int (a div 2)"
      using IH(2) p1 by simp
    also have "\<dots> \<le> of_int a"
      using lo by (metis of_int_le_iff of_int_mult of_int_numeral)
    finally have A: "(2::rat) powi (bit_length a - 1) \<le> of_int a"
      by (simp add: len)
    from IH(3) have "of_int (a div 2 + 1) \<le> (2::rat) powi (bit_length (a div 2))"
    proof -
      have "0 \<le> bit_length (a div 2)" using IH(1) by simp
      then obtain n where n: "bit_length (a div 2) = int n"
        using nonneg_int_cases by blast
      have "(of_int (a div 2) :: rat) < of_int (2 ^ n)"
        using IH(3) by (simp add: n)
      then have "a div 2 < 2 ^ n" by (simp only: of_int_less_iff)
      then have "a div 2 + 1 \<le> 2 ^ n" by simp
      then have "(of_int (a div 2 + 1) :: rat) \<le> of_int (2 ^ n)" by (simp only: of_int_le_iff)
      then show ?thesis by (simp add: n)
    qed
    then have "2 * (of_int (a div 2 + 1) :: rat) \<le> 2 powi (bit_length a)"
      by (simp add: len p2)
    moreover have "(of_int a :: rat) < 2 * of_int (a div 2 + 1)"
      using hi by (metis of_int_less_iff of_int_mult of_int_numeral)
    ultimately have B: "(of_int a :: rat) < 2 powi (bit_length a)" by simp
    from A B len IH(1) show ?thesis by simp
  qed
qed

lemma binade_bounds:
  assumes "q \<noteq> 0"
  shows "2 powi (binade q) \<le> \<bar>q\<bar> \<and> \<bar>q\<bar> < 2 powi (binade q + 1)"
proof -
  obtain a b where ab: "quotient_of \<bar>q\<bar> = (a, b)" by (cases "quotient_of \<bar>q\<bar>")
  have b: "0 < b" using ab by (rule quotient_of_denom_pos)
  have q: "\<bar>q\<bar> = of_int a / of_int b" using ab by (rule quotient_of_div)
  have "0 < \<bar>q\<bar>" using assms by simp
  with q b have a: "0 < a" by (simp add: zero_less_divide_iff)
  define la where "la = bit_length a"
  define lb where "lb = bit_length b"
  define k where "k = la - lb"
  from bit_length_bounds [OF a] have A: "2 powi (la - 1) \<le> (of_int a :: rat)" "(of_int a :: rat) < 2 powi la"
    by (simp_all add: la_def)
  from bit_length_bounds [OF b] have B: "2 powi (lb - 1) \<le> (of_int b :: rat)" "(of_int b :: rat) < 2 powi lb"
    by (simp_all add: lb_def)
  have bpos: "(0::rat) < of_int b" using b by simp
  have pos: "(0::rat) < 2 powi n" for n by simp
  have up: "\<bar>q\<bar> < 2 powi (k + 1)"
  proof -
    have "of_int a < (2::rat) powi (k + 1) * 2 powi (lb - 1)"
      using A(2) by (simp add: k_def flip: power_int_add)
    also have "\<dots> \<le> 2 powi (k + 1) * of_int b"
      using B(1) by (intro mult_left_mono) simp_all
    finally show ?thesis using bpos by (simp add: q pos_divide_less_eq)
  qed
  have low: "2 powi (k - 1) < \<bar>q\<bar>"
  proof -
    have "(2::rat) powi (k - 1) * of_int b < 2 powi (k - 1) * 2 powi lb"
      using B(2) by (intro mult_strict_left_mono) simp_all
    also have "\<dots> = 2 powi (la - 1)"
      by (simp add: k_def flip: power_int_add)
    also have "\<dots> \<le> of_int a" by (rule A(1))
    finally show ?thesis using bpos by (simp add: q pos_less_divide_eq)
  qed
  have bin: "binade q = (if 2 powi k \<le> \<bar>q\<bar> then k else k - 1)"
    by (simp add: binade_def ab k_def la_def lb_def)
  show ?thesis
  proof (cases "2 powi k \<le> \<bar>q\<bar>")
    case True
    with bin up show ?thesis by simp
  next
    case False
    with bin low show ?thesis by simp
  qed
qed

lemma powi2_less_D: "(2::rat) powi m < 2 powi n \<Longrightarrow> m < n"
proof (rule ccontr)
  assume less: "(2::rat) powi m < 2 powi n" and "\<not> m < n"
  then have "n \<le> m" by simp
  then have "(2::rat) powi n \<le> 2 powi m" by (rule power_int_increasing) simp
  with less show False by simp
qed

lemma binade_eqI:
  assumes "2 powi e \<le> \<bar>q\<bar>" and "\<bar>q\<bar> < 2 powi (e + 1)"
  shows "binade q = e"
proof -
  have "q \<noteq> 0"
  proof
    assume "q = 0"
    with assms(1) have "(2::rat) powi e \<le> 0" by simp
    moreover have "(0::rat) < 2 powi e" by simp
    ultimately show False by simp
  qed
  from binade_bounds [OF this]
  have b: "2 powi (binade q) \<le> \<bar>q\<bar>" "\<bar>q\<bar> < 2 powi (binade q + 1)" by simp_all
  have "(2::rat) powi e < 2 powi (binade q + 1)" using assms(1) b(2) by simp
  then have "e < binade q + 1" by (rule powi2_less_D)
  moreover have "(2::rat) powi (binade q) < 2 powi (e + 1)" using assms(2) b(1) by simp
  then have "binade q < e + 1" by (rule powi2_less_D)
  ultimately show ?thesis by simp
qed

text \<open>
  Rounding is the identity on the doubles: on every \<open>m * 2^k\<close> with \<open>|m| < 2^53\<close> and
  \<open>-1074 \<le> k \<le> 971\<close>, in particular on the integers below \<open>2^53\<close> in magnitude.
\<close>

lemma round_half_even_of_int: "round_half_even (of_int z) = z"
  by (simp add: round_half_even_def)

lemma round_double_dyadic:
  assumes m: "\<bar>m\<bar> < 2 ^ 53" and k: "- 1074 \<le> k" "k \<le> 971"
  shows "round_double (of_int m * 2 powi k) = Finite (of_int m * 2 powi k)"
proof (cases "m = 0")
  case True
  then show ?thesis by (simp add: round_double_def)
next
  case False
  define q :: rat where "q = of_int m * 2 powi k"
  have q0: "q \<noteq> 0" using False by (simp add: q_def)
  have absq: "\<bar>q\<bar> = of_int \<bar>m\<bar> * 2 powi k" by (simp add: q_def abs_mult)
  have "(of_int \<bar>m\<bar> :: rat) < of_int (2 ^ 53)" using m by (simp only: of_int_less_iff)
  then have "\<bar>q\<bar> < 2 powi 53 * 2 powi k"
    unfolding absq by (intro mult_strict_right_mono) simp_all
  then have small: "\<bar>q\<bar> < 2 powi (53 + k)" by (simp add: power_int_add)
  from binade_bounds [OF q0] small have "(2::rat) powi (binade q) < 2 powi (53 + k)" by simp
  then have e: "binade q < 53 + k" by (rule powi2_less_D)
  define u where "u = max (binade q) (- 1022) - 52"
  have u: "u \<le> k" using e k by (simp add: u_def)
  then obtain n where n: "k - u = int n" using nonneg_int_cases [of "k - u"] by auto
  have "q / 2 powi u = of_int m * 2 powi (k - u)"
    by (simp add: q_def power_int_diff)
  also have "\<dots> = of_int (m * 2 ^ n)" by (simp add: n)
  finally have quot: "q / 2 powi u = of_int (m * 2 ^ n)" .
  have again: "of_int (m * 2 ^ n) * 2 powi u = q"
    using quot by (simp add: field_simps)
  have "53 + k \<le> 1024" using k by simp
  then have "(2::rat) powi (53 + k) \<le> 2 powi 1024" by (rule power_int_increasing) simp
  with small have fin: "\<not> 2 powi 1024 \<le> \<bar>q\<bar>" by simp
  have "round_double q = Finite q"
    using q0 fin
    by (simp add: round_double_def Let_def flip: u_def)
       (simp add: quot round_half_even_of_int again del: of_int_mult of_int_power)
  then show ?thesis by (simp add: q_def)
qed

lemma round_double_int:
  "\<bar>n\<bar> < 2 ^ 53 \<Longrightarrow> round_double (of_int n) = Finite (of_int n)"
  using round_double_dyadic [of n 0] by simp

lemma round_double_0: "round_double 0 = Finite 0"
  by (simp add: round_double_def)

lemma round_double_1: "round_double 1 = Finite 1"
  using round_double_int [of 1] by simp

lemma round_double_numeral:
  "numeral w < (2 ^ 53 :: int) \<Longrightarrow> round_double (numeral w) = Finite (numeral w)"
  using round_double_int [of "numeral w"] by simp

lemma round_double_neg_numeral:
  "numeral w < (2 ^ 53 :: int) \<Longrightarrow> round_double (- numeral w) = Finite (- numeral w)"
  using round_double_int [of "- numeral w"] by simp

lemma exact_int: "\<bar>n\<bar> < 2 ^ 53 \<Longrightarrow> exact (of_int n)"
  by (simp add: exact_def round_double_int)

lemma trunc_of_int: "trunc (of_int n) = n"
  by (simp add: trunc_def)

lemma wrap32_id: "- (2 ^ 31) \<le> v \<Longrightarrow> v < 2 ^ 31 \<Longrightarrow> wrap32 v = v"
  by (simp add: wrap32_def)

lemmas float_simps =
  float_add_def float_sub_def float_mul_def float_neg_def py_int_def trunc_def
  round_double_0 round_double_1 round_double_numeral round_double_neg_numeral
  c_int_def c_int_of_float_def wrap32_def Rect_init_def

text \<open>The objects of the concrete world are those that the constructors return.\<close>

lemma demo_heap_constructed:
  "Token_init AmmoToken (Finite 10, Finite 10) (16, 16) = Inr (demo_heap 1) \<and>
   Token_init ScoreToken (Finite 10, Finite 10) (16, 16) = Inr (demo_heap 2) \<and>
   Token_init (PowerUpToken PUDoubleScore) (Finite 10, Finite 10) (16, 16) = Inr (demo_heap 3) \<and>
   Token_init ScoreToken (Finite 200, Finite 200) (16, 16) = Inr (demo_heap 4)"
  by (simp add: Token_init_def demo_heap_def demo_token_def float_simps)

lemma int_bullet_constructed:
  assumes "\<bar>i\<bar> < 2 ^ 30" and "\<bar>j\<bar> < 2 ^ 30"
  shows "Bullet_init (Finite (of_int i)) (Finite (of_int j)) d = Inr (int_bullet i j d)"
proof -
  have "\<bar>i - 2\<bar> < 2 ^ 53" "\<bar>j - 2\<bar> < 2 ^ 53" using assms by simp_all
  then have r: "round_double (of_int (i - 2)) = Finite (of_int (i - 2))"
    "round_double (of_int (j - 2)) = Finite (of_int (j - 2))"
    by (simp_all only: round_double_int)
  have w: "wrap32 (i - 2) = i - 2" "wrap32 (j - 2) = j - 2"
    using assms by (simp_all add: wrap32_id)
  have "py_int (float_sub (Finite (of_int i)) (Finite 2)) = Inr (i - 2)"
    using r(1) by (simp add: float_sub_def float_add_def float_neg_def py_int_def trunc_of_int
        del: of_int_diff flip: of_int_diff [of i 2, simplified])
  moreover have "py_int (float_sub (Finite (of_int j)) (Finite 2)) = Inr (j - 2)"
    using r(2) by (simp add: float_sub_def float_add_def float_neg_def py_int_def trunc_of_int
        del: of_int_diff flip: of_int_diff [of j 2, simplified])
  moreover have "Rect_init (i - 2) (j - 2) 4 4 =
      Inr \<lparr>rect_x = i - 2, rect_y = j - 2, rect_w = 4, rect_h = 4\<rparr>"
  proof -
    have "c_int (i - 2) = Inr (i - 2)" "c_int (j - 2) = Inr (j - 2)"
      using assms w by (auto simp: c_int_def)
    moreover have "c_int 4 = Inr 4" by (simp add: c_int_def wrap32_def)
    ultimately show ?thesis by (simp add: Rect_init_def)
  qed
  ultimately show ?thesis by (simp add: Bullet_init_def int_bullet_def)
qed

text \<open>
  Rounding a concrete value: with its binade \<open>e\<close> and the integer \<open>n\<close> nearest to its
  quotient by the spacing \<open>2^(e - 52)\<close>, the result is \<open>n * 2^(e - 52)\<close>.
\<close>

lemma round_double_eval_aux:
  assumes "2 powi e \<le> \<bar>q\<bar>" and "\<bar>q\<bar> < 2 powi (e + 1)" and "- 1022 \<le> e"
    and "round_half_even (q / 2 powi (e - 52)) = n"
    and "\<bar>of_int n * 2 powi (e - 52) :: rat\<bar> < 2 powi 1024"
  shows "round_double q = Finite (of_int n * 2 powi (e - 52))"
proof -
  have e: "binade q = e" using assms(1,2) by (rule binade_eqI)
  have "q \<noteq> 0"
  proof
    assume "q = 0"
    with assms(1) have "(2::rat) powi e \<le> 0" by simp
    moreover have "(0::rat) < 2 powi e" by simp
    ultimately show False by simp
  qed
  then show ?thesis
    using assms(3,4,5) by (simp add: round_double_def e max_def)
qed

lemma round_half_even_near:
  assumes "\<bar>m - of_int n\<bar> < 1 / 2"
  shows "round_half_even m = n"
proof -
  define d where "d = m - of_int n"
  have d: "\<bar>d\<bar> < 1 / 2" using assms by (simp add: d_def)
  have m: "m = of_int n + d" by (simp add: d_def)
  show ?thesis
  proof (cases "0 \<le> d")
    case True
    then have "\<lfloor>of_int n + d\<rfloor> = n" using d by (intro floor_unique) simp_all
    then show ?thesis using True d by (simp add: round_half_even_def m)
  next
    case False
    then have "\<lfloor>of_int n + d\<rfloor> = n - 1" using d by (intro floor_unique) simp_all
    then show ?thesis using False d by (simp add: round_half_even_def m)
  qed
qed

lemma round_half_even_tie:
  assumes "m = of_int n + 1 / 2" and "even n"
  shows "round_half_even m = n"
proof -
  have "\<lfloor>of_int n + (1 / 2 :: rat)\<rfloor> = n" by (intro floor_unique) simp_all
  then show ?thesis using assms by (simp add: round_half_even_def)
qed

text \<open>The roundings in the run of \<open>Bullet(0.01, 10, "right")\<close>.\<close>

lemma round_centi: "round_double (1 / 100) = Finite (5764607523034235 / 576460752303423488)"
  using round_double_eval_aux [where q = "1 / 100" and e = "- 7" and n = 5764607523034235]
    round_half_even_near [where m = "(1 / 100) / 2 powi (- 7 - 52)" and n = 5764607523034235]
  by simp

lemma centi_minus_2:
  "float_sub (Finite (5764607523034235 / 576460752303423488)) (Finite 2) =
     Finite (- (8962163258467287 / 4503599627370496))"
  using round_double_eval_aux [where q = "5764607523034235 / 576460752303423488 - 2" and e = 0
      and n = "- 8962163258467287"]
    round_half_even_near [where m = "(5764607523034235 / 576460752303423488 - 2) / 2 powi (0 - 52)"
      and n = "- 8962163258467287"]
  by (simp add: float_sub_def float_add_def float_neg_def)

lemma centi_plus_10:
  "float_add (Finite (5764607523034235 / 576460752303423488)) (Finite 10) =
     Finite (5635129033747333 / 562949953421312)"
  using round_double_eval_aux [where q = "5764607523034235 / 576460752303423488 + 10" and e = 3
      and n = 5635129033747333]
    round_half_even_near [where m = "(5764607523034235 / 576460752303423488 + 10) / 2 powi (3 - 52)"
      and n = 5635129033747333]
  by (simp add: float_add_def)

lemma centi_plus_10_plus_10:
  "float_add (Finite (5635129033747333 / 562949953421312)) (Finite 10) =
     Finite (2816157141990113 / 140737488355328)"
  using round_double_eval_aux [where q = "5635129033747333 / 562949953421312 + 10" and e = 4
      and n = 5632314283980226]
    round_half_even_tie [where m = "(5635129033747333 / 562949953421312 + 10) / 2 powi (4 - 52)"
      and n = 5632314283980226]
  by (simp add: float_add_def)

lemma centi_plus_20:
  "float_add (Finite (5764607523034235 / 576460752303423488)) (Finite 20) =
     Finite (5632314283980227 / 281474976710656)"
  using round_double_eval_aux [where q = "5764607523034235 / 576460752303423488 + 20" and e = 4
      and n = 5632314283980227]
    round_half_even_near [where m = "(5764607523034235 / 576460752303423488 + 20) / 2 powi (4 - 52)"
      and n = 5632314283980227]
  by (simp add: float_add_def)

lemma centi_bullet_constructed:
  "Bullet_init (round_double (1 / 100)) (Finite 10) ''right'' = Inr centi_bullet"
proof -
  have "\<lfloor>8962163258467287 / 4503599627370496 :: rat\<rfloor> = 1"
    by (rule floor_unique) simp_all
  then have "py_int (float_sub (Finite (5764607523034235 / 576460752303423488)) (Finite 2)) =
      Inr (- 1)"
    by (simp add: centi_minus_2 py_int_def trunc_def ceiling_def)
  moreover have "py_int (float_sub (Finite 10) (Finite 2)) = Inr 8"
    by (simp add: float_simps)
  moreover have "Rect_init (- 1) 8 4 4 = Inr \<lparr>rect_x = - 1, rect_y = 8, rect_w = 4, rect_h = 4\<rparr>"
    by (simp add: Rect_init_def c_int_def wrap32_def)
  ultimately show ?thesis
    by (simp add: Bullet_init_def round_centi centi_bullet_def)
qed

subsection \<open>Auxiliary facts about lists\<close>

lemma list_remove_member: "v \<in> set xs \<Longrightarrow> list_remove v xs = Inr (remove1 v xs)"
  by (simp add: list_remove_def)

lemma list_remove_absent: "v \<notin> set xs \<Longrightarrow> list_remove v xs = Inl ValueError"
  by (simp add: list_remove_def)

lemmas demo_defs =
  demo_world_def demo_heap_def demo_player_def demo_token_def collidepoint_def center_def

subsection \<open>Collecting score and ammo tokens\<close>

text \<open>
  C1. Let \<open>T\<close> be in the token list. If \<open>T\<close> is a \<open>ScoreToken\<close> and the centre of the
  player's rectangle lies in the rectangle of \<open>T\<close>, then \<open>T.collect(player, tokens)\<close>
  calls \<open>add_score(100)\<close>, which raises the score by exactly 100, and then removes \<open>T\<close>
  from the list (its first occurrence, as \<open>list.remove\<close> does); nothing else changes.
  For an \<open>AmmoToken\<close> the same holds with \<open>add_ammo(5)\<close>. If the centre does not lie in
  the rectangle, the call changes nothing: neither the player nor the list.
\<close>

theorem collect_score_ammo:
  assumes "T \<in> set (tokens w)"
  shows
    "(cls (heap w T) = ScoreToken \<and>
        collidepoint (token_rect (heap w T)) (center (player_rect (player w))) \<longrightarrow>
      collect now T w =
        Inr (w\<lparr>tokens := remove1 T (tokens w),
               player := (player w)\<lparr>score := score (player w) + 100\<rparr>,
               trace := trace w @ [AddScore 100, TokensRemove T]\<rparr>)) \<and>
     (cls (heap w T) = AmmoToken \<and>
        collidepoint (token_rect (heap w T)) (center (player_rect (player w))) \<longrightarrow>
      collect now T w =
        Inr (w\<lparr>tokens := remove1 T (tokens w),
               player := (player w)\<lparr>ammo := ammo (player w) + 5\<rparr>,
               trace := trace w @ [AddAmmo 5, TokensRemove T]\<rparr>)) \<and>
     ((cls (heap w T) = ScoreToken \<or> cls (heap w T) = AmmoToken) \<and>
        \<not> collidepoint (token_rect (heap w T)) (center (player_rect (player w))) \<longrightarrow>
      collect now T w = Inr w)"
  using assms
  by (auto simp: collect_def ScoreToken_collect_def AmmoToken_collect_def tokens_remove_def
      call_add_score_def call_add_ammo_def add_score_def add_ammo_def list_remove_member)

theorem collect_score_ammo_witness:
  "collect 0 2 demo_world =
     Inr (demo_world\<lparr>tokens := [1, 3, 4], player := demo_player\<lparr>score := 100\<rparr>,
                     trace := [AddScore 100, TokensRemove 2]\<rparr>) \<and>
   collect 0 1 demo_world =
     Inr (demo_world\<lparr>tokens := [2, 3, 4], player := demo_player\<lparr>ammo := 5\<rparr>,
                     trace := [AddAmmo 5, TokensRemove 1]\<rparr>) \<and>
   collect 0 4 demo_world = Inr demo_world"
  using collect_score_ammo [where T = 2 and w = demo_world and now = 0]
    collect_score_ammo [where T = 1 and w = demo_world and now = 0]
    collect_score_ammo [where T = 4 and w = demo_world and now = 0]
  by (simp add: demo_defs)

subsection \<open>Collecting a power-up\<close>

text \<open>
  C2. Let \<open>T\<close> be a power-up token in the token list, let the player have no power-up, and
  let the centre of the player's rectangle lie in the rectangle of \<open>T\<close>. Then
  \<open>T.collect(player, tokens)\<close> returns normally after exactly three effects, in this
  order: \<open>T.start_time\<close> is set to the current tick value, \<open>T\<close> is removed from the list,
  and the player's power-up becomes \<open>T\<close>.
\<close>

theorem collect_power_up:
  assumes "cls (heap w T) = PowerUpToken k"
    and "power_up (player w) = None"
    and "T \<in> set (tokens w)"
    and "collidepoint (token_rect (heap w T)) (center (player_rect (player w)))"
  shows "collect now T w =
           Inr (w\<lparr>heap := (heap w)(T := (heap w T)\<lparr>start_time := Some now\<rparr>),
                  tokens := remove1 T (tokens w),
                  player := (player w)\<lparr>power_up := Some T\<rparr>,
                  trace := trace w @ [SetStartTime T now, TokensRemove T, SetPowerUp T]\<rparr>)"
  using assms
  by (simp add: collect_def PowerUpToken_collect_def tokens_remove_def assign_start_time_def
      call_set_power_up_def set_power_up_def list_remove_member)

theorem collect_power_up_witness:
  "collect 5000 3 demo_world =
     Inr (demo_world\<lparr>heap := demo_heap(3 := (demo_heap 3)\<lparr>start_time := Some 5000\<rparr>),
                     tokens := [1, 2, 4],
                     player := demo_player\<lparr>power_up := Some 3\<rparr>,
                     trace := [SetStartTime 3 5000, TokensRemove 3, SetPowerUp 3]\<rparr>)"
  using collect_power_up [where w = demo_world and T = 3 and k = PUDoubleScore and now = 5000]
  by (simp add: demo_defs)

text \<open>
  C6. If the player already has a power-up, \<open>collect\<close> on a power-up token changes
  nothing, whether or not the player overlaps the token and whether or not the token is
  in the list: the list, the token's \<open>start_time\<close> and the whole player stay as they are.
\<close>

theorem collect_power_up_blocked:
  assumes "cls (heap w T) = PowerUpToken k" and "power_up (player w) \<noteq> None"
  shows "collect now T w = Inr w"
  using assms by (simp add: collect_def PowerUpToken_collect_def)

theorem collect_power_up_blocked_witness:
  "collidepoint (token_rect (demo_heap 3)) (center (player_rect demo_player)) \<and>
   collect 5000 3 (demo_world\<lparr>player := demo_player\<lparr>power_up := Some 7\<rparr>\<rparr>) =
     Inr (demo_world\<lparr>player := demo_player\<lparr>power_up := Some 7\<rparr>\<rparr>)"
  using collect_power_up_blocked
    [where w = "demo_world\<lparr>player := demo_player\<lparr>power_up := Some 7\<rparr>\<rparr>"
       and T = 3 and k = PUDoubleScore and now = 5000]
  by (simp add: demo_defs)

subsection \<open>Collecting a token that is not in the list\<close>

text \<open>
  C10. Let \<open>T\<close> overlap the player but be absent from the token list. Then \<open>collect\<close>
  raises \<open>ValueError\<close> from the removal. For a score or ammo token the player's score or
  ammunition has already been increased at that point. For a power-up token (the player
  having none) \<open>start_time\<close> has already been set, and the player's power-up is still
  unset.
\<close>

theorem collect_not_atomic:
  assumes "T \<notin> set (tokens w)"
    and "collidepoint (token_rect (heap w T)) (center (player_rect (player w)))"
  shows
    "(cls (heap w T) = ScoreToken \<longrightarrow>
      collect now T w =
        Inl (ValueError,
             w\<lparr>player := (player w)\<lparr>score := score (player w) + 100\<rparr>,
               trace := trace w @ [AddScore 100]\<rparr>)) \<and>
     (cls (heap w T) = AmmoToken \<longrightarrow>
      collect now T w =
        Inl (ValueError,
             w\<lparr>player := (player w)\<lparr>ammo := ammo (player w) + 5\<rparr>,
               trace := trace w @ [AddAmmo 5]\<rparr>)) \<and>
     (cls (heap w T) = PowerUpToken k \<and> power_up (player w) = None \<longrightarrow>
      collect now T w =
        Inl (ValueError,
             w\<lparr>heap := (heap w)(T := (heap w T)\<lparr>start_time := Some now\<rparr>),
               trace := trace w @ [SetStartTime T now]\<rparr>))"
  using assms
  by (auto simp: collect_def ScoreToken_collect_def AmmoToken_collect_def PowerUpToken_collect_def
      tokens_remove_def call_add_score_def call_add_ammo_def add_score_def add_ammo_def
      assign_start_time_def list_remove_absent)

theorem collect_not_atomic_witness:
  "collect 5000 2 (demo_world\<lparr>tokens := [4]\<rparr>) =
     Inl (ValueError,
          demo_world\<lparr>tokens := [4], player := demo_player\<lparr>score := 100\<rparr>,
                      trace := [AddScore 100]\<rparr>) \<and>
   collect 5000 1 (demo_world\<lparr>tokens := [4]\<rparr>) =
     Inl (ValueError,
          demo_world\<lparr>tokens := [4], player := demo_player\<lparr>ammo := 5\<rparr>,
                      trace := [AddAmmo 5]\<rparr>) \<and>
   collect 5000 3 (demo_world\<lparr>tokens := [4]\<rparr>) =
     Inl (ValueError,
          demo_world\<lparr>heap := demo_heap(3 := (demo_heap 3)\<lparr>start_time := Some 5000\<rparr>),
                      tokens := [4], trace := [SetStartTime 3 5000]\<rparr>)"
  using collect_not_atomic [where T = 2 and w = "demo_world\<lparr>tokens := [4]\<rparr>"
      and k = PUDoubleScore and now = 5000]
    collect_not_atomic [where T = 1 and w = "demo_world\<lparr>tokens := [4]\<rparr>"
      and k = PUDoubleScore and now = 5000]
    collect_not_atomic [where T = 3 and w = "demo_world\<lparr>tokens := [4]\<rparr>"
      and k = PUDoubleScore and now = 5000]
  by (simp add: demo_defs)

subsection \<open>Expiry of a power-up\<close>

text \<open>
  C3. For a power-up token collected at tick \<open>t0\<close>, \<open>check_for_completion\<close> at tick \<open>t\<close>
  returns false when \<open>t - t0 < 30000\<close> and true when \<open>t - t0 \<ge> 30000\<close>; at the boundary
  \<open>t - t0 = 30000\<close> it returns true. (This holds for every \<open>t\<close>, so in particular for
  \<open>t \<ge> t0\<close>.)
\<close>

theorem check_for_completion_threshold:
  assumes "cls T = PowerUpToken k" and "start_time T = Some t0"
  shows "(t - t0 < 30000 \<longrightarrow> check_for_completion t T = Inr False) \<and>
         (t - t0 \<ge> 30000 \<longrightarrow> check_for_completion t T = Inr True) \<and>
         check_for_completion (t0 + 30000) T = Inr True"
  using assms by (simp add: check_for_completion_def)

theorem check_for_completion_threshold_witness:
  "check_for_completion 34999 ((demo_heap 3)\<lparr>start_time := Some 5000\<rparr>) = Inr False \<and>
   check_for_completion 35000 ((demo_heap 3)\<lparr>start_time := Some 5000\<rparr>) = Inr True \<and>
   check_for_completion 99000 ((demo_heap 3)\<lparr>start_time := Some 5000\<rparr>) = Inr True"
  using check_for_completion_threshold
      [where T = "(demo_heap 3)\<lparr>start_time := Some 5000\<rparr>" and k = PUDoubleScore
         and ?t0.0 = 5000 and t = 34999]
    check_for_completion_threshold
      [where T = "(demo_heap 3)\<lparr>start_time := Some 5000\<rparr>" and k = PUDoubleScore
         and ?t0.0 = 5000 and t = 99000]
  by (simp add: demo_defs)

text \<open>
  C8. \<open>check_for_completion\<close> on a power-up token whose \<open>start_time\<close> is still \<open>None\<close>
  fails: it raises \<open>TypeError\<close>. Once \<open>start_time\<close> is set, the call returns a boolean
  and raises nothing.
\<close>

theorem check_for_completion_precondition:
  assumes "cls T = PowerUpToken k"
  shows "(start_time T = None \<longrightarrow> check_for_completion now T = Inl TypeError) \<and>
         (start_time T \<noteq> None \<longrightarrow> (\<exists>b. check_for_completion now T = Inr b))"
  using assms by (auto simp: check_for_completion_def)

theorem check_for_completion_precondition_witness:
  "start_time (demo_heap 3) = None \<and>
   check_for_completion 35000 (demo_heap 3) = Inl TypeError \<and>
   (\<exists>b. check_for_completion 35000 ((demo_heap 3)\<lparr>start_time := Some 5000\<rparr>) = Inr b)"
  using check_for_completion_precondition [where T = "demo_heap 3" and k = PUDoubleScore and now = 35000]
    check_for_completion_precondition
      [where T = "(demo_heap 3)\<lparr>start_time := Some 5000\<rparr>" and k = PUDoubleScore
         and now = 35000]
  by (simp add: demo_defs)

subsection \<open>Auxiliary facts about bullets\<close>

text \<open>
  The invariant of the loop of \<open>check_for_enemies\<close>: when the snapshot still holds
  \<open>rest\<close>, the list holds the enemies seen so far that were not hit, followed by \<open>rest\<close>.
  The removal therefore always finds its element.
\<close>

lemma check_loop_filter:
  "check_loop E self rest (filter (\<lambda>e. \<not> hits E self e) pre @ rest) kills =
     Inr (self, filter (\<lambda>e. \<not> hits E self e) (pre @ rest),
          kills + int (length (filter (hits E self) rest)))"
proof (induction rest arbitrary: pre kills)
  case Nil
  show ?case by simp
next
  case (Cons enemy rest)
  show ?case
  proof (cases "hits E self enemy")
    case True
    then have rm: "list_remove enemy (filter (\<lambda>e. \<not> hits E self e) pre @ enemy # rest) =
        Inr (filter (\<lambda>e. \<not> hits E self e) pre @ rest)"
      by (simp add: list_remove_def remove1_append)
    from True have "collidepoint_float (enemy_rect (E enemy)) (bullet_x self, bullet_y self)"
      by (simp add: hits_def)
    then show ?thesis
      using True rm Cons.IH [of pre "kills + 1"] by simp
  next
    case False
    then have "\<not> collidepoint_float (enemy_rect (E enemy)) (bullet_x self, bullet_y self)"
      by (simp add: hits_def)
    then show ?thesis
      using False Cons.IH [of "pre @ [enemy]" kills] by simp
  qed
qed

lemma check_for_enemies_keeps_self:
  "\<exists>enemies' kills. check_for_enemies E self enemies = Inr (self, enemies', kills)"
  using check_loop_filter [of E self enemies "[]" 0]
  by (simp add: check_for_enemies_def)

lemma update_known:
  "MOVEMENT_COEFFICIENTS C (direction b) = Some v \<Longrightarrow>
   update C b =
     Inr (b\<lparr>bullet_x := float_add (bullet_x b) (float_mul (fst v) (BULLET_SPEED C)),
            bullet_y := float_add (bullet_y b) (float_mul (snd v) (BULLET_SPEED C))\<rparr>)"
  by (simp add: update_def)

lemma update_unknown:
  "MOVEMENT_COEFFICIENTS C (direction b) = None \<Longrightarrow> update C b = Inl (KeyError, b)"
  by (simp add: update_def)

lemma update_only_position:
  "bullet_of (update C b) =
     b\<lparr>bullet_x := bullet_x (bullet_of (update C b)),
       bullet_y := bullet_y (bullet_of (update C b))\<rparr>"
  by (cases "MOVEMENT_COEFFICIENTS C (direction b)")
     (simp_all add: update_known update_unknown bullet_of_def)

lemma update_frame:
  "bullet_rect (bullet_of (update C b)) = bullet_rect b \<and>
   direction (bullet_of (update C b)) = direction b"
  by (cases "MOVEMENT_COEFFICIENTS C (direction b)")
     (simp_all add: update_known update_unknown bullet_of_def)

lemma call_frame:
  "bullet_rect (bullet_of (call C c b)) = bullet_rect b \<and>
   direction (bullet_of (call C c b)) = direction b"
proof (cases c)
  case Update
  then show ?thesis using update_frame [of C b] by simp
next
  case Place
  then show ?thesis using update_frame [of C b] by (simp add: place_def)
next
  case (CheckForEnemies E enemies)
  then show ?thesis using check_for_enemies_keeps_self [of E b enemies]
    by (auto simp: bullet_of_def)
qed

lemma lifetime_frame:
  "bullet_rect (bullet_of (lifetime C calls b)) = bullet_rect b \<and>
   direction (bullet_of (lifetime C calls b)) = direction b"
proof (induction calls arbitrary: b)
  case Nil
  show ?case by (simp add: bullet_of_def)
next
  case (Cons c cs)
  show ?case
  proof (cases "call C c b")
    case (Inl eb)
    then show ?thesis using call_frame [of C c b] by (simp add: bullet_of_def)
  next
    case (Inr b')
    then show ?thesis using call_frame [of C c b] Cons.IH [of b'] by (simp add: bullet_of_def)
  qed
qed

lemma lifetime_without_moves:
  "\<forall>c \<in> set calls. c \<noteq> Update \<and> c \<noteq> Place \<Longrightarrow> lifetime C calls b = Inr b"
proof (induction calls)
  case Nil
  show ?case by simp
next
  case (Cons c cs)
  from Cons.prems obtain E enemies where c: "c = CheckForEnemies E enemies"
    by (cases c) auto
  have "call C c b = Inr b"
    using check_for_enemies_keeps_self [of E b enemies] by (auto simp: c)
  then show ?case using Cons by simp
qed

lemma Bullet_init_Inr:
  assumes "Bullet_init x0 y0 d = Inr b0"
  obtains i j where "py_int (float_sub x0 (Finite 2)) = Inr i"
    and "py_int (float_sub y0 (Finite 2)) = Inr j"
    and "b0 = \<lparr>bullet_x = x0, bullet_y = y0,
               bullet_rect = \<lparr>rect_x = wrap32 i, rect_y = wrap32 j, rect_w = 4, rect_h = 4\<rparr>,
               direction = d\<rparr>"
proof -
  from assms obtain i j r where i: "py_int (float_sub x0 (Finite 2)) = Inr i"
    and j: "py_int (float_sub y0 (Finite 2)) = Inr j"
    and r: "Rect_init i j 4 4 = Inr r"
    and b0: "b0 = \<lparr>bullet_x = x0, bullet_y = y0, bullet_rect = r, direction = d\<rparr>"
    by (auto simp: Bullet_init_def split: sum.splits)
  have "c_int 4 = Inr 4" by (simp add: c_int_def wrap32_def)
  with r have "r = \<lparr>rect_x = wrap32 i, rect_y = wrap32 j, rect_w = 4, rect_h = 4\<rparr>"
    by (auto simp: Rect_init_def c_int_def split: if_splits)
  with i j b0 show ?thesis using that by simp
qed

lemma centi_bullet_run:
  "lifetime four_way (replicate 2 Update) centi_bullet =
     Inr (centi_bullet\<lparr>bullet_x := Finite (2816157141990113 / 140737488355328)\<rparr>)"
proof -
  have table: "MOVEMENT_COEFFICIENTS four_way ''right'' = Some (Finite 1, Finite 0)"
    by (simp add: four_way_def)
  have mx: "float_mul (Finite 1) (BULLET_SPEED four_way) = Finite 10"
    and my: "float_mul (Finite 0) (BULLET_SPEED four_way) = Finite 0"
    and y: "float_add (Finite 10) (Finite 0) = Finite 10"
    by (simp_all add: four_way_def float_simps)
  let ?b1 = "centi_bullet\<lparr>bullet_x := Finite (5635129033747333 / 562949953421312)\<rparr>"
  let ?b2 = "centi_bullet\<lparr>bullet_x := Finite (2816157141990113 / 140737488355328)\<rparr>"
  have "update four_way centi_bullet = Inr ?b1"
    using update_known [of four_way centi_bullet "(Finite 1, Finite 0)"] table
    by (simp add: centi_bullet_def mx my y centi_plus_10)
  moreover have "update four_way ?b1 = Inr ?b2"
    using update_known [of four_way ?b1 "(Finite 1, Finite 0)"] table
    by (simp add: centi_bullet_def mx my y centi_plus_10_plus_10)
  ultimately show ?thesis by (simp add: numeral_2_eq_2)
qed

lemmas bullet_defs =
  four_way_def int_bullet_def demo_enemies_def hits_def
  collidepoint_float_def collidepoint_def

lemma far_bullet_constructed:
  "Bullet_init (Finite 3000000000) (Finite 10) ''up'' = Inr far_bullet"
  by (simp add: Bullet_init_def far_bullet_def float_simps)

subsection \<open>The rectangle of a bullet\<close>

text \<open>
  C4, as amended. Let the constructor return a bullet for the position \<open>(x0, y0)\<close>. At
  every point of its life, after any sequence of \<open>update\<close>, \<open>place\<close> and
  \<open>check_for_enemies\<close> calls and also when a call has raised, its rectangle is the one
  the constructor computed: 4x4, with top-left corner \<open>(int(x0 - 2), int(y0 - 2))\<close>, the
  subtraction done in floats and the two ints stored as 32-bit C ints. It is the 4x4
  rectangle at \<open>(int(x - 2), int(y - 2))\<close> for the current position \<open>(x, y)\<close> as long as
  these two ints fit in 32 bits and no call has moved the bullet, that is after
  construction and after \<open>check_for_enemies\<close> calls only.
\<close>

theorem bullet_rect_fixed:
  assumes "Bullet_init x0 y0 d = Inr b0"
  shows "\<exists>i j. py_int (float_sub x0 (Finite 2)) = Inr i \<and>
           py_int (float_sub y0 (Finite 2)) = Inr j \<and>
           bullet_rect (bullet_of (lifetime C calls b0)) =
             \<lparr>rect_x = wrap32 i, rect_y = wrap32 j, rect_w = 4, rect_h = 4\<rparr> \<and>
           (wrap32 i = i \<and> wrap32 j = j \<and> (\<forall>c \<in> set calls. c \<noteq> Update \<and> c \<noteq> Place) \<longrightarrow>
              rect_centred (bullet_of (lifetime C calls b0)))"
proof -
  from assms obtain i j where i: "py_int (float_sub x0 (Finite 2)) = Inr i"
    and j: "py_int (float_sub y0 (Finite 2)) = Inr j"
    and b0: "b0 = \<lparr>bullet_x = x0, bullet_y = y0,
               bullet_rect = \<lparr>rect_x = wrap32 i, rect_y = wrap32 j, rect_w = 4, rect_h = 4\<rparr>,
               direction = d\<rparr>"
    by (rule Bullet_init_Inr)
  have fixed: "bullet_rect (bullet_of (lifetime C calls b0)) =
      \<lparr>rect_x = wrap32 i, rect_y = wrap32 j, rect_w = 4, rect_h = 4\<rparr>"
    using lifetime_frame [of C calls b0] by (simp add: b0)
  have "rect_centred (bullet_of (lifetime C calls b0))"
    if "wrap32 i = i" "wrap32 j = j" "\<forall>c \<in> set calls. c \<noteq> Update \<and> c \<noteq> Place"
  proof -
    have "lifetime C calls b0 = Inr b0" using that(3) by (rule lifetime_without_moves)
    then show ?thesis using i j that(1,2) by (simp add: bullet_of_def rect_centred_def b0)
  qed
  with i j fixed show ?thesis by blast
qed

theorem bullet_rect_fixed_witness:
  "Bullet_init (Finite 10) (Finite 10) ''up'' = Inr (int_bullet 10 10 ''up'') \<and>
   bullet_rect (bullet_of (lifetime four_way
       [CheckForEnemies demo_enemies [1, 2], Update, Place] (int_bullet 10 10 ''up''))) =
     \<lparr>rect_x = 8, rect_y = 8, rect_w = 4, rect_h = 4\<rparr> \<and>
   rect_centred (bullet_of (lifetime four_way
       [CheckForEnemies demo_enemies [1, 2]] (int_bullet 10 10 ''up''))) \<and>
   Bullet_init (Finite 3000000000) (Finite 10) ''up'' = Inr far_bullet \<and>
   bullet_rect (bullet_of (lifetime four_way [Update] far_bullet)) =
     \<lparr>rect_x = - 1294967298, rect_y = 8, rect_w = 4, rect_h = 4\<rparr>"
proof -
  have c: "Bullet_init (Finite 10) (Finite 10) ''up'' = Inr (int_bullet 10 10 ''up'')"
    using int_bullet_constructed [of 10 10 "''up''"] by simp
  have f: "Bullet_init (Finite 3000000000) (Finite 10) ''up'' = Inr far_bullet"
    by (rule far_bullet_constructed)
  show ?thesis
    using c f
      bullet_rect_fixed [OF c, where C = four_way
        and calls = "[CheckForEnemies demo_enemies [1, 2], Update, Place]"]
      bullet_rect_fixed [OF c, where C = four_way
        and calls = "[CheckForEnemies demo_enemies [1, 2]]"]
      bullet_rect_fixed [OF f, where C = four_way and calls = "[Update]"]
    by (simp add: float_simps)
qed

text \<open>
  The rectangle does not follow the position: no method assigns it after the
  constructor. With the four-way table and speed 10, a bullet constructed at \<open>(10, 10)\<close>
  heading up is at \<open>(10, 0)\<close> after one \<open>update\<close>, and its rectangle still has its
  top-left corner at \<open>(8, 8)\<close>, not at \<open>(8, -2)\<close>. And a bullet constructed at
  \<open>x = 3000000000\<close> has \<open>rect.x = -1294967298\<close> from the start, not \<open>2999999998\<close>.
\<close>

theorem bullet_rect_follows_counterexample:
  "Bullet_init (Finite 10) (Finite 10) ''up'' = Inr (int_bullet 10 10 ''up'') \<and>
   \<not> rect_centred (bullet_of (lifetime four_way [Update] (int_bullet 10 10 ''up''))) \<and>
   Bullet_init (Finite 3000000000) (Finite 10) ''up'' = Inr far_bullet \<and>
   \<not> rect_centred far_bullet"
  using int_bullet_constructed [of 10 10 "''up''"] far_bullet_constructed
  by (simp add: rect_centred_def bullet_of_def update_def bullet_defs far_bullet_def float_simps)

subsection \<open>Hitting enemies\<close>

text \<open>
  C5. \<open>check_for_enemies\<close> of a bullet at \<open>(x, y)\<close> never raises. It removes from the
  list exactly the enemies whose rectangle contains the point \<open>(x, y)\<close> (in the sense of
  \<open>collidepoint\<close>), all of them in one call, keeps the others in their order, returns the
  number of enemies removed, and leaves the bullet as it was.
\<close>

theorem check_for_enemies_removes_hits:
  "check_for_enemies E self enemies =
     Inr (self, filter (\<lambda>e. \<not> hits E self e) enemies,
          int (length (filter (hits E self) enemies)))"
  using check_loop_filter [of E self enemies "[]" 0]
  by (simp add: check_for_enemies_def)

theorem check_for_enemies_removes_hits_witness:
  "check_for_enemies demo_enemies (int_bullet 5 5 ''up'') [1, 2] =
     Inr (int_bullet 5 5 ''up'', [2], 1) \<and>
   check_for_enemies demo_enemies (int_bullet 5 5 ''up'') [1, 3] =
     Inr (int_bullet 5 5 ''up'', [], 2) \<and>
   check_for_enemies demo_enemies (int_bullet 5 5 ''up'') [2, 1, 4, 3, 1] =
     Inr (int_bullet 5 5 ''up'', [2, 4], 3)"
  using
    check_for_enemies_removes_hits
      [where E = demo_enemies and self = "int_bullet 5 5 ''up''" and enemies = "[1, 2]"]
    check_for_enemies_removes_hits
      [where E = demo_enemies and self = "int_bullet 5 5 ''up''" and enemies = "[1, 3]"]
    check_for_enemies_removes_hits
      [where E = demo_enemies and self = "int_bullet 5 5 ''up''" and enemies = "[2, 1, 4, 3, 1]"]
  by (simp add: bullet_defs float_simps)

subsection \<open>Movement\<close>

text \<open>
  C7, as amended. Let a bullet be at the finite position \<open>(x0, y0)\<close> with a direction
  that is a key of the table, with finite vector \<open>(vx, vy)\<close> and finite speed \<open>s\<close>. If the
  float arithmetic of \<open>N\<close> updates is exact, that is the products \<open>vx * s\<close> and \<open>vy * s\<close>
  and the sums \<open>x0 + k * (vx * s)\<close> and \<open>y0 + k * (vy * s)\<close> for \<open>k = 1, ..., N\<close> are
  doubles, then the \<open>N\<close> calls of \<open>update\<close> all return and the position is then
  \<open>(x0, y0)\<close> plus \<open>N\<close> times the product of the speed and the vector. The condition
  holds in particular for integers below \<open>2^53\<close> in magnitude (\<open>exact_int\<close>).
\<close>

theorem update_n_times:
  assumes "MOVEMENT_COEFFICIENTS C (direction b) = Some (Finite vx, Finite vy)"
    and "BULLET_SPEED C = Finite s"
    and "bullet_x b = Finite x0" and "bullet_y b = Finite y0"
    and "exact (vx * s)" and "exact (vy * s)"
    and "\<forall>k \<in> {1..N}. exact (x0 + of_nat k * (vx * s)) \<and> exact (y0 + of_nat k * (vy * s))"
  shows "lifetime C (replicate N Update) b =
           Inr (b\<lparr>bullet_x := Finite (x0 + of_nat N * (vx * s)),
                  bullet_y := Finite (y0 + of_nat N * (vy * s))\<rparr>)"
  using assms
proof (induction N arbitrary: b x0 y0)
  case 0
  then show ?case by simp
next
  case (Suc N)
  let ?b = "b\<lparr>bullet_x := Finite (x0 + vx * s), bullet_y := Finite (y0 + vy * s)\<rparr>"
  have "1 \<in> {1..Suc N}" by simp
  with Suc.prems(7) have "exact (x0 + of_nat 1 * (vx * s))" "exact (y0 + of_nat 1 * (vy * s))"
    by blast+
  then have first: "round_double (x0 + vx * s) = Finite (x0 + vx * s)"
    "round_double (y0 + vy * s) = Finite (y0 + vy * s)"
    by (simp_all add: exact_def)
  have prod: "round_double (vx * s) = Finite (vx * s)" "round_double (vy * s) = Finite (vy * s)"
    using Suc.prems(5,6) by (simp_all add: exact_def)
  have step: "update C b = Inr ?b"
    using Suc.prems(1-4) first prod
    by (simp add: update_known float_add_def float_mul_def)
  have rest: "\<forall>k \<in> {1..N}. exact (x0 + vx * s + of_nat k * (vx * s)) \<and>
      exact (y0 + vy * s + of_nat k * (vy * s))"
  proof
    fix k assume "k \<in> {1..N}"
    then have "Suc k \<in> {1..Suc N}" by simp
    with Suc.prems(7) have "exact (x0 + of_nat (Suc k) * (vx * s)) \<and>
        exact (y0 + of_nat (Suc k) * (vy * s))" by blast
    then show "exact (x0 + vx * s + of_nat k * (vx * s)) \<and>
        exact (y0 + vy * s + of_nat k * (vy * s))"
      by (simp add: algebra_simps)
  qed
  have "lifetime C (replicate N Update) ?b =
      Inr (?b\<lparr>bullet_x := Finite (x0 + vx * s + of_nat N * (vx * s)),
               bullet_y := Finite (y0 + vy * s + of_nat N * (vy * s))\<rparr>)"
    using Suc.prems(1,2,5,6) rest
    by (intro Suc.IH) simp_all
  with step show ?case by (simp add: algebra_simps)
qed

theorem update_n_times_witness:
  "Bullet_init (Finite 100) (Finite 200) ''up'' = Inr (int_bullet 100 200 ''up'') \<and>
   lifetime four_way (replicate 3 Update) (int_bullet 100 200 ''up'') =
     Inr ((int_bullet 100 200 ''up'')\<lparr>bullet_x := Finite 100, bullet_y := Finite 170\<rparr>)"
proof -
  have c: "Bullet_init (Finite 100) (Finite 200) ''up'' = Inr (int_bullet 100 200 ''up'')"
    using int_bullet_constructed [of 100 200 "''up''"] by simp
  have table: "MOVEMENT_COEFFICIENTS four_way (direction (int_bullet 100 200 ''up'')) =
      Some (Finite 0, Finite (- 1))"
    by (simp add: four_way_def int_bullet_def)
  have speed: "BULLET_SPEED four_way = Finite 10" by (simp add: four_way_def)
  have pos: "bullet_x (int_bullet 100 200 ''up'') = Finite 100"
    "bullet_y (int_bullet 100 200 ''up'') = Finite 200"
    by (simp_all add: int_bullet_def)
  have prods: "exact (0 * 10)" "exact (- 1 * 10)"
    using exact_int [of 0] exact_int [of "- 10"] by simp_all
  have sums: "\<forall>k \<in> {1..3::nat}. exact (100 + of_nat k * (0 * 10)) \<and>
      exact (200 + of_nat k * (- 1 * 10))"
  proof
    fix k :: nat assume "k \<in> {1..3}"
    then have "\<bar>200 - 10 * int k\<bar> < 2 ^ 53" by simp
    then have "exact (of_int (200 - 10 * int k))" by (rule exact_int)
    moreover have "exact (of_int 100)" by (rule exact_int) simp
    ultimately show "exact (100 + of_nat k * (0 * 10)) \<and> exact (200 + of_nat k * (- 1 * 10))"
      by (simp add: mult.commute)
  qed
  show ?thesis
    using c update_n_times [OF table speed pos prods sums] by simp
qed

text \<open>
  Without exactness the equality fails, because every \<open>+=\<close> rounds. With the four-way
  table and speed 10, \<open>Bullet(0.01, 10, "right")\<close> has after two updates
  \<open>x = 20.009999999999998\<close>. That is neither the exact sum of the double \<open>0.01\<close> and 20,
  which is no double, nor the float value of \<open>0.01 + 2 * (10 * 1)\<close>, which is \<open>20.01\<close>.
\<close>

theorem update_n_times_counterexample:
  "Bullet_init (round_double (1 / 100)) (Finite 10) ''right'' = Inr centi_bullet \<and>
   MOVEMENT_COEFFICIENTS four_way ''right'' = Some (Finite 1, Finite 0) \<and>
   bullet_x (bullet_of (lifetime four_way (replicate 2 Update) centi_bullet)) =
     Finite (2816157141990113 / 140737488355328) \<and>
   Finite (2816157141990113 / 140737488355328) \<noteq>
     Finite (5764607523034235 / 576460752303423488 + 2 * (10 * 1)) \<and>
   Finite (2816157141990113 / 140737488355328) \<noteq>
     float_add (bullet_x centi_bullet)
       (float_mul (Finite 2) (float_mul (BULLET_SPEED four_way) (Finite 1)))"
proof -
  have "float_mul (Finite 2) (float_mul (BULLET_SPEED four_way) (Finite 1)) = Finite 20"
    by (simp add: four_way_def float_simps)
  then have "float_add (bullet_x centi_bullet)
      (float_mul (Finite 2) (float_mul (BULLET_SPEED four_way) (Finite 1))) =
      Finite (5632314283980227 / 281474976710656)"
    by (simp add: centi_bullet_def centi_plus_20)
  moreover have "MOVEMENT_COEFFICIENTS four_way ''right'' = Some (Finite 1, Finite 0)"
    by (simp add: four_way_def)
  ultimately show ?thesis
    by (simp add: centi_bullet_constructed centi_bullet_run bullet_of_def)
qed

subsection \<open>What the bullet methods leave alone\<close>

text \<open>
  C9. \<open>update\<close> changes at most the fields \<open>x\<close> and \<open>y\<close> of the bullet, whether it returns
  or raises. \<open>check_for_enemies\<close> returns with the bullet unchanged. Its result depends
  on the bullet only through \<open>x\<close> and \<open>y\<close>: two bullets at the same position remove the
  same enemies and count the same kills, whatever their rectangles and directions are.
  Hence the rectangle and the direction of every bullet stay as they are through any
  sequence of calls; for a bullet that the constructor returned they are the values of
  its construction.
\<close>

theorem bullet_frame:
  "bullet_of (update C b) =
     b\<lparr>bullet_x := bullet_x (bullet_of (update C b)),
       bullet_y := bullet_y (bullet_of (update C b))\<rparr> \<and>
   (\<exists>enemies' kills. check_for_enemies E b enemies = Inr (b, enemies', kills)) \<and>
   (bullet_x b1 = bullet_x b2 \<and> bullet_y b1 = bullet_y b2 \<longrightarrow>
      (\<exists>enemies' kills.
          check_for_enemies E b1 enemies = Inr (b1, enemies', kills) \<and>
          check_for_enemies E b2 enemies = Inr (b2, enemies', kills))) \<and>
   bullet_rect (bullet_of (lifetime C calls b)) = bullet_rect b \<and>
   direction (bullet_of (lifetime C calls b)) = direction b \<and>
   (Bullet_init x0 y0 d = Inr b \<longrightarrow>
      bullet_rect (bullet_of (lifetime C calls b)) = bullet_rect b \<and>
      direction (bullet_of (lifetime C calls b)) = d)"
proof -
  have same: "hits E b1 = hits E b2" if "bullet_x b1 = bullet_x b2" "bullet_y b1 = bullet_y b2"
    using that by (simp add: hits_def fun_eq_iff)
  have result: "check_for_enemies E s enemies =
      Inr (s, filter (\<lambda>e. \<not> hits E s e) enemies, int (length (filter (hits E s) enemies)))"
    for s
    using check_loop_filter [of E s enemies "[]" 0] by (simp add: check_for_enemies_def)
  have "\<exists>enemies' kills.
          check_for_enemies E b1 enemies = Inr (b1, enemies', kills) \<and>
          check_for_enemies E b2 enemies = Inr (b2, enemies', kills)"
    if "bullet_x b1 = bullet_x b2" "bullet_y b1 = bullet_y b2"
    using same [OF that] by (simp add: result)
  moreover have "direction b = d" if "Bullet_init x0 y0 d = Inr b"
    using that by (auto elim: Bullet_init_Inr)
  ultimately show ?thesis
    using update_only_position [of C b] check_for_enemies_keeps_self [of E b enemies]
      lifetime_frame [of C calls b]
    by simp
qed

theorem bullet_frame_witness:
  "Bullet_init (Finite 5) (Finite 5) ''up'' = Inr (int_bullet 5 5 ''up'') \<and>
   bullet_of (update four_way (int_bullet 5 5 ''up'')) =
     (int_bullet 5 5 ''up'')\<lparr>bullet_x := Finite 5, bullet_y := Finite (- 5)\<rparr> \<and>
   check_for_enemies demo_enemies (int_bullet 5 5 ''up'') [1, 2] =
     Inr (int_bullet 5 5 ''up'', [2], 1) \<and>
   check_for_enemies demo_enemies
       ((int_bullet 5 5 ''up'')
          \<lparr>bullet_rect := \<lparr>rect_x = 90, rect_y = 90, rect_w = 1, rect_h = 1\<rparr>,
           direction := ''down''\<rparr>) [1, 2] =
     Inr ((int_bullet 5 5 ''up'')
            \<lparr>bullet_rect := \<lparr>rect_x = 90, rect_y = 90, rect_w = 1, rect_h = 1\<rparr>,
             direction := ''down''\<rparr>, [2], 1) \<and>
   bullet_rect (bullet_of (lifetime four_way
       [Update, CheckForEnemies demo_enemies [1, 2], Place] (int_bullet 5 5 ''up''))) =
     \<lparr>rect_x = 3, rect_y = 3, rect_w = 4, rect_h = 4\<rparr> \<and>
   direction (bullet_of (lifetime four_way
       [Update, CheckForEnemies demo_enemies [1, 2], Place] (int_bullet 5 5 ''up''))) = ''up''"
proof -
  have c: "Bullet_init (Finite 5) (Finite 5) ''up'' = Inr (int_bullet 5 5 ''up'')"
    using int_bullet_constructed [of 5 5 "''up''"] by simp
  show ?thesis
    using c bullet_frame [where C = four_way and b = "int_bullet 5 5 ''up''" and E = demo_enemies
      and enemies = "[1, 2]" and ?b1.0 = "int_bullet 5 5 ''up''"
      and ?b2.0 = "(int_bullet 5 5 ''up'')
          \<lparr>bullet_rect := \<lparr>rect_x = 90, rect_y = 90, rect_w = 1, rect_h = 1\<rparr>,
           direction := ''down''\<rparr>"
      and calls = "[Update, CheckForEnemies demo_enemies [1, 2], Place]"
      and ?x0.0 = "Finite 5" and ?y0.0 = "Finite 5" and d = "''up''"]
    by (simp add: bullet_defs update_def bullet_of_def check_for_enemies_def list_remove_def
        float_simps)
qed

end
